theory Spec2Isabelle
  imports Complex_Main "HOL-Library.Char_ord" "HOL-Library.List_Lexorder"
begin

section \<open>Python strings\<close>

text \<open>
  A Python \<open>str\<close> is modelled as a list of characters, one \<open>char\<close> per code point. The
  type \<open>char\<close> holds the code points 0 to 255, and the character classes and case mappings
  below are Python's on these code points: the classes \<open>\w\<close>, \<open>\d\<close> and \<open>\s\<close> of a \<open>str\<close>
  pattern of the \<open>re\<close> module, \<open>str.lower\<close> and \<open>str.upper\<close>. A character outside ASCII is
  written as its code point (\<open>CHR 0xE9\<close> for e acute, \<open>CHR 0xE8\<close> for e grave).
\<close>

definition code :: "char \<Rightarrow> nat" where
  "code c = of_char c"

text \<open>
  The class \<open>\d\<close> and the range \<open>[0-9]\<close>, and the ranges \<open>[A-Z]\<close> and \<open>[a-z]\<close>. Among the code
  points 0 to 255 the ASCII digits are the only decimal digits.
\<close>

definition is_digit :: "char \<Rightarrow> bool" where
  "is_digit c = (48 \<le> code c \<and> code c \<le> 57)"

definition is_upper :: "char \<Rightarrow> bool" where
  "is_upper c = (65 \<le> code c \<and> code c \<le> 90)"

definition is_lower :: "char \<Rightarrow> bool" where
  "is_lower c = (97 \<le> code c \<and> code c \<le> 122)"

text \<open>
  The class \<open>\w\<close>: the alphanumeric characters and the underscore. Outside ASCII the
  alphanumeric characters are the two ordinal indicators (0xAA, 0xBA), the micro sign
  (0xB5), the superscript digits (0xB2, 0xB3, 0xB9), the fractions (0xBC to 0xBE) and the
  letters from 0xC0 to 0xFF, which leaves out the multiplication sign (0xD7) and the division
  sign (0xF7).
\<close>

definition is_word :: "char \<Rightarrow> bool" where
  "is_word c =
     (is_digit c \<or> is_upper c \<or> is_lower c \<or> c = CHR ''_''
      \<or> code c \<in> {0xAA, 0xB2, 0xB3, 0xB5, 0xB9, 0xBA, 0xBC, 0xBD, 0xBE}
      \<or> (0xC0 \<le> code c \<and> code c \<noteq> 0xD7 \<and> code c \<noteq> 0xF7))"

text \<open>
  The class \<open>\s\<close> of a \<open>str\<close> pattern: tab, line feed, vertical tab, form feed, carriage
  return, the four separators 28 to 31, the space, the next-line character (0x85) and the
  no-break space (0xA0).
\<close>

definition is_space :: "char \<Rightarrow> bool" where
  "is_space c =
     ((9 \<le> code c \<and> code c \<le> 13) \<or> (28 \<le> code c \<and> code c \<le> 32)
      \<or> code c = 0x85 \<or> code c = 0xA0)"

text \<open>
  The lower case of a character: the letters \<open>A\<close> to \<open>Z\<close> and 0xC0 to 0xDE (without the
  multiplication sign) move up by 32, every other character is its own lower case.
  \<open>str.lower()\<close> maps each character of the string.
\<close>

definition to_lower :: "char \<Rightarrow> char" where
  "to_lower c =
     (if is_upper c \<or> (0xC0 \<le> code c \<and> code c \<le> 0xDE \<and> code c \<noteq> 0xD7)
      then char_of (code c + 32) else c)"

definition lower :: "string \<Rightarrow> string" where
  "lower s = map to_lower s"

text \<open>
  \<open>str.upper()\<close> leaves the code points 0 to 255 at two characters: the micro sign (0xB5)
  becomes the Greek capital mu (U+039C) and y with diaeresis (0xFF) becomes its capital
  (U+0178). An upper-cased text is therefore a list over the code points 0 to 255 and these
  two capitals. The sharp s (0xDF) becomes the two letters \<open>SS\<close>; the letters \<open>a\<close> to \<open>z\<close> and
  0xE0 to 0xFE (without the division sign) move down by 32; every other character stays.
\<close>

datatype upper_char = Latin char | Capital_Mu | Capital_Y_Diaeresis

definition to_upper :: "char \<Rightarrow> upper_char list" where
  "to_upper c =
     (if code c = 0xB5 then [Capital_Mu]
      else if code c = 0xDF then [Latin CHR ''S'', Latin CHR ''S'']
      else if code c = 0xFF then [Capital_Y_Diaeresis]
      else if is_lower c \<or> (0xE0 \<le> code c \<and> code c \<le> 0xFE \<and> code c \<noteq> 0xF7)
        then [Latin (char_of (code c - 32))]
      else [Latin c])"

definition upper :: "string \<Rightarrow> upper_char list" where
  "upper s = concat (map to_upper s)"

text \<open>The class \<open>\w\<close> on an upper-cased text: the two capitals are letters.\<close>

fun is_word_upper :: "upper_char \<Rightarrow> bool" where
  "is_word_upper (Latin c) = is_word c"
| "is_word_upper Capital_Mu = True"
| "is_word_upper Capital_Y_Diaeresis = True"

text \<open>\<open>s.rstrip(ch)\<close> for a one-character argument: every trailing \<open>ch\<close> is removed.\<close>

definition rstrip :: "char \<Rightarrow> string \<Rightarrow> string" where
  "rstrip ch s = rev (dropWhile (\<lambda>c. c = ch) (rev s))"


text \<open>
  The text of an integer inside an f-string (\<open>f"{limit}"\<close>): decimal digits, with a minus sign
  for a negative number.
\<close>

fun str_nat :: "nat \<Rightarrow> string" where
  "str_nat n =
     (if n < 10 then [char_of (48 + n)] else str_nat (n div 10) @ [char_of (48 + n mod 10)])"

declare str_nat.simps [simp del]

definition str_int :: "int \<Rightarrow> string" where
  "str_int i = (if i < 0 then CHR ''-'' # str_nat (nat (- i)) else str_nat (nat i))"

subsection \<open>Regular expression search\<close>

text \<open>
  \<open>re.search(pattern, s)\<close> tries the pattern at every start position from 0 to \<open>len(s)\<close> and
  is truthy when it matches at one of them. A pattern is given by the predicate "matches
  \<open>s\<close> at position \<open>i\<close>"; the text is a string or an upper-cased string.
\<close>

definition re_search :: "('a list \<Rightarrow> nat \<Rightarrow> bool) \<Rightarrow> 'a list \<Rightarrow> bool" where
  "re_search match_at s = list_ex (match_at s) [0..<Suc (length s)]"

text \<open>
  \<open>\b\<close> at position \<open>i\<close>: exactly one of the characters before and after the position is a
  word character, the ends of the text counting as non-word. The class of word characters
  is the argument \<open>w\<close>.
\<close>

definition word_boundary :: "('a \<Rightarrow> bool) \<Rightarrow> 'a list \<Rightarrow> nat \<Rightarrow> bool" where
  "word_boundary w s i =
     ((0 < i \<and> i \<le> length s \<and> w (s ! (i - 1))) \<noteq> (i < length s \<and> w (s ! i)))"

text \<open>A pattern of literal characters matches where the text continues with them.\<close>

definition literal_at :: "'a list \<Rightarrow> 'a list \<Rightarrow> nat \<Rightarrow> bool" where
  "literal_at lit s i = (take (length lit) (drop i s) = lit)"

text \<open>
  Under \<open>re.IGNORECASE\<close> a literal character matches the characters that have its lower
  case; among the code points 0 to 255 no other character is equivalent to it.
\<close>

definition literal_ignorecase_at :: "string \<Rightarrow> string \<Rightarrow> nat \<Rightarrow> bool" where
  "literal_ignorecase_at lit s i = (lower (take (length lit) (drop i s)) = lower lit)"

section \<open>Configuration (app/core/config.py)\<close>

text \<open>
  The fields of \<open>Settings\<close> that the modelled functions read, with the defaults of their
  \<open>Field\<close> declarations.
\<close>

record Settings =
  enable_read_only_mode :: bool
  default_query_limit :: int
  max_query_results :: int
  password_min_length :: int
  password_require_uppercase :: bool
  password_require_lowercase :: bool
  password_require_digit :: bool
  password_require_special :: bool
  secret_key :: string
  algorithm :: string
  access_token_expire_minutes :: int
  refresh_token_expire_days :: int

text \<open>
  The default of \<open>secret_key\<close> is a fresh random string; a fixed one stands for it here.
\<close>

definition default_settings :: Settings where
  "default_settings =
     \<lparr> enable_read_only_mode = True, default_query_limit = 100, max_query_results = 1000,
       password_min_length = 8, password_require_uppercase = True,
       password_require_lowercase = True, password_require_digit = True,
       password_require_special = True,
       secret_key = ''0123456789abcdefghijklmnopqrstuvwxyzABCDEFG'', algorithm = ''HS256'',
       access_token_expire_minutes = 30, refresh_token_expire_days = 7 \<rparr>"

section \<open>Query optimizer (app/graphrag/query_optimizer.py)\<close>

text \<open>
  The pattern \<open>\bLIMIT\s+\d+\<close> under \<open>re.IGNORECASE\<close> at position \<open>i\<close>: a word boundary, the
  five letters of LIMIT in either case, then white space and a digit. \<open>\s+\<close> takes the first
  character and every further white-space character; the next character must be a digit
  (giving back white space cannot help, since no character is both), and \<open>\d+\<close> needs no
  more than that one.
\<close>

definition limit_at :: "string \<Rightarrow> nat \<Rightarrow> bool" where
  "limit_at s i =
     (word_boundary is_word s i \<and> literal_ignorecase_at ''LIMIT'' s i \<and>
      (case drop (i + 5) s of
         [] \<Rightarrow> False
       | c # rest \<Rightarrow> is_space c \<and>
           (case dropWhile is_space rest of [] \<Rightarrow> False | d # _ \<Rightarrow> is_digit d)))"

text \<open>\<open>_has_limit\<close>.\<close>

definition has_limit :: "string \<Rightarrow> bool" where
  "has_limit cypher = re_search limit_at cypher"

text \<open>\<open>_add_limit\<close>: \<open>f"{cypher.rstrip(';')} LIMIT {limit}"\<close>.\<close>

definition add_limit :: "string \<Rightarrow> int \<Rightarrow> string" where
  "add_limit cypher limit = rstrip CHR '';'' cypher @ '' LIMIT '' @ str_int limit"

text \<open>
  \<open>QueryOptimizer.optimize\<close>; the object's \<open>default_limit\<close> is
  \<open>settings.default_query_limit\<close>.
\<close>

definition optimize :: "Settings \<Rightarrow> string \<Rightarrow> string" where
  "optimize cfg cypher =
     (if \<not> has_limit cypher then add_limit cypher (default_query_limit cfg) else cypher)"

definition DANGEROUS_KEYWORDS :: "string list" where
  "DANGEROUS_KEYWORDS =
     [''CREATE'', ''DELETE'', ''REMOVE'', ''SET'', ''MERGE'', ''DROP'', ''ALTER'',
      ''DETACH DELETE'']"

text \<open>
  The pattern \<open>r'\b' + keyword + r'\b'\<close> at position \<open>i\<close> of an upper-cased text; the
  keywords consist of letters and a space, which a pattern takes literally.
\<close>

definition keyword_at :: "string \<Rightarrow> upper_char list \<Rightarrow> nat \<Rightarrow> bool" where
  "keyword_at keyword s i =
     (word_boundary is_word_upper s i \<and> literal_at (map Latin keyword) s i \<and>
      word_boundary is_word_upper s (i + length keyword))"

text \<open>The message of the rejection, an f-string ending in the keyword.\<close>

definition not_allowed :: "string \<Rightarrow> string" where
  "not_allowed keyword =
     ''Op'' @ [CHR 0xE9] @ ''ration non autoris'' @ [CHR 0xE9] @ ''e: '' @ keyword"

text \<open>
  \<open>QueryOptimizer.is_read_only\<close>: the loop over the keywords returns at the first one found
  in the upper-cased query.
\<close>

definition is_read_only :: "Settings \<Rightarrow> string \<Rightarrow> bool \<times> string" where
  "is_read_only cfg cypher =
     (if \<not> enable_read_only_mode cfg then (True, '''')
      else case find (\<lambda>keyword. re_search (keyword_at keyword) (upper cypher))
                  DANGEROUS_KEYWORDS of
             Some keyword \<Rightarrow> (False, not_allowed keyword)
           | None \<Rightarrow> (True, ''''))"

subsection \<open>The optimizer's conditions in the words of its description\<close>


text \<open>
  A query contains a \<open>LIMIT <digits>\<close> clause when the word LIMIT, in any case and not
  preceded by a word character, is followed by white space and then by digits.
\<close>

definition contains_limit_clause :: "string \<Rightarrow> bool" where
  "contains_limit_clause q =
     (\<exists>pre kw ws ds post. q = pre @ kw @ ws @ ds @ post \<and> lower kw = ''limit'' \<and>
        (pre = [] \<or> \<not> is_word (last pre)) \<and>
        ws \<noteq> [] \<and> (\<forall>c\<in>set ws. is_space c) \<and> ds \<noteq> [] \<and> (\<forall>c\<in>set ds. is_digit c))"

section \<open>Health endpoint (app/api/v1/endpoints/health.py)\<close>

text \<open>
  \<open>ServiceStatus\<close> of app/models/enums.py, restricted to the three members the health
  endpoint produces.
\<close>

datatype ServiceStatus = HEALTHY | DEGRADED | UNAVAILABLE

text \<open>
  One entry of the \<open>components\<close> dictionary. The latency is a clock difference and is left
  out of the model; the message is kept.
\<close>

record ComponentHealth =
  success :: bool
  status :: ServiceStatus
  message :: string

record HealthResponse =
  hr_success :: bool
  hr_status :: ServiceStatus
  hr_components :: "(string \<times> ComponentHealth) list"

text \<open>
  The global classification of \<open>health_check\<close>: the \<open>if\<close>/\<open>elif\<close>/\<open>else\<close> chain over the two
  health booleans.
\<close>

definition global_status :: "bool \<Rightarrow> bool \<Rightarrow> ServiceStatus" where
  "global_status neo4j_healthy llm_healthy =
     (if neo4j_healthy \<and> llm_healthy then HEALTHY
      else if neo4j_healthy \<or> llm_healthy then DEGRADED
      else UNAVAILABLE)"

text \<open>
  \<open>health_check\<close>, with the results of the three service probes and the cache's
  \<open>enabled\<close> attribute as arguments.
\<close>

definition health_check :: "bool \<Rightarrow> bool \<Rightarrow> bool \<Rightarrow> bool \<Rightarrow> HealthResponse" where
  "health_check neo4j_healthy llm_healthy cache_healthy cache_enabled =
     \<lparr> hr_success = True,
       hr_status = global_status neo4j_healthy llm_healthy,
       hr_components =
         [(''neo4j'', \<lparr> success = True,
              status = (if neo4j_healthy then HEALTHY else UNAVAILABLE),
              message = (if neo4j_healthy then ''Connect'' @ [CHR 0xE9]
                         else ''D'' @ [CHR 0xE9] @ ''connect'' @ [CHR 0xE9]) \<rparr>),
          (''llm'', \<lparr> success = True,
              status = (if llm_healthy then HEALTHY else UNAVAILABLE),
              message = (if llm_healthy then ''Disponible'' else ''Indisponible'') \<rparr>),
          (''cache'', \<lparr> success = True,
              status = (if cache_healthy then HEALTHY else DEGRADED),
              message = (if cache_enabled then ''Activ'' @ [CHR 0xE9]
                         else ''D'' @ [CHR 0xE9] @ ''sactiv'' @ [CHR 0xE9]) \<rparr>)] \<rparr>"

section \<open>Exceptions\<close>

text \<open>
  The exceptions the modelled functions raise, each with its message: Python's
  \<open>ValueError\<close>, \<open>KeyError\<close> and \<open>TypeError\<close>, \<open>InvalidCypherQueryError\<close> and
  \<open>UnauthorizedError\<close> of app/core/exceptions.py, and \<open>ServiceError\<close> for whatever a call to
  the database or the language model raises. \<open>JWSError\<close> is the exception with which the jose
  library refuses to sign; its message depends on the algorithm and is left out. A function
  that can raise returns \<open>error + 'a\<close>, with \<open>Inl\<close> for the exception.
\<close>

datatype error =
    ValueError string
  | KeyError string
  | TypeError string
  | InvalidCypherQueryError string
  | UnauthorizedError string
  | ServiceError string
  | JWSError

section \<open>Password policy (app/core/security.py)\<close>

text \<open>
  \<open>PasswordValidator.validate\<close>. Each \<open>re.search\<close> is for a single character of a class, so
  it succeeds exactly when some character of the password is in the class. The messages
  are the source's.
\<close>

definition SPECIAL_CHARACTERS :: string where
  "SPECIAL_CHARACTERS = ''!@#$%^&*(),.?'' @ [CHR 0x22] @ '':{}|<>''"

definition msg_min_length :: "int \<Rightarrow> string" where
  "msg_min_length n =
     ''Le mot de passe doit contenir au moins '' @ str_int n @ '' caract'' @ [CHR 0xE8] @ ''res''"

definition msg_uppercase :: string where
  "msg_uppercase = ''Le mot de passe doit contenir au moins une majuscule''"

definition msg_lowercase :: string where
  "msg_lowercase = ''Le mot de passe doit contenir au moins une minuscule''"

definition msg_digit :: string where
  "msg_digit = ''Le mot de passe doit contenir au moins un chiffre''"

definition msg_special :: string where
  "msg_special =
     ''Le mot de passe doit contenir au moins un caract'' @ [CHR 0xE8] @ ''re sp'' @ [CHR 0xE9] @ ''cial''"

definition validate :: "Settings \<Rightarrow> string \<Rightarrow> bool \<times> string list" where
  "validate cfg password =
     (let errors = [];
          errors = (if int (length password) < password_min_length cfg
                    then errors @ [msg_min_length (password_min_length cfg)] else errors);
          errors = (if password_require_uppercase cfg \<and> \<not> list_ex is_upper password
                    then errors @ [msg_uppercase] else errors);
          errors = (if password_require_lowercase cfg \<and> \<not> list_ex is_lower password
                    then errors @ [msg_lowercase] else errors);
          errors = (if password_require_digit cfg \<and> \<not> list_ex is_digit password
                    then errors @ [msg_digit] else errors);
          errors = (if password_require_special cfg
                       \<and> \<not> list_ex (\<lambda>c. c \<in> set SPECIAL_CHARACTERS) password
                    then errors @ [msg_special] else errors)
      in (length errors = 0, errors))"

subsection \<open>The policy as a list of rules\<close>

text \<open>
  The five rules of the policy in the order the validator checks them, when a password
  violates a rule, and the message of a rule.
\<close>

datatype password_rule = MinLength | Uppercase | Lowercase | Digit | Special

definition ALL_RULES :: "password_rule list" where
  "ALL_RULES = [MinLength, Uppercase, Lowercase, Digit, Special]"

fun violated :: "Settings \<Rightarrow> string \<Rightarrow> password_rule \<Rightarrow> bool" where
  "violated cfg p MinLength = (int (length p) < password_min_length cfg)"
| "violated cfg p Uppercase = (password_require_uppercase cfg \<and> (\<forall>c\<in>set p. \<not> is_upper c))"
| "violated cfg p Lowercase = (password_require_lowercase cfg \<and> (\<forall>c\<in>set p. \<not> is_lower c))"
| "violated cfg p Digit = (password_require_digit cfg \<and> (\<forall>c\<in>set p. \<not> is_digit c))"
| "violated cfg p Special =
     (password_require_special cfg \<and> (\<forall>c\<in>set p. c \<notin> set SPECIAL_CHARACTERS))"

fun rule_message :: "Settings \<Rightarrow> password_rule \<Rightarrow> string" where
  "rule_message cfg MinLength = msg_min_length (password_min_length cfg)"
| "rule_message cfg Uppercase = msg_uppercase"
| "rule_message cfg Lowercase = msg_lowercase"
| "rule_message cfg Digit = msg_digit"
| "rule_message cfg Special = msg_special"

section \<open>File name sanitizer (app/utils/sanitizers.py)\<close>









section \<open>Python values\<close>

text \<open>
  The values that cross the modelled interfaces: what \<open>json.loads\<close> returns and \<open>json.dumps\<close>
  accepts (\<open>None\<close>, booleans, integers, floats, strings, lists, dictionaries with string
  keys), and tuples, which \<open>json.dumps\<close> accepts as well. A float is its real value (not a
  number and the infinities are left out). A dictionary is the list of its items in insertion
  order; its keys are distinct.
\<close>

datatype pyval =
    PNone
  | PBool bool
  | PInt int
  | PFloat real
  | PStr string
  | PList "pyval list"
  | PTuple "pyval list"
  | PDict "(string \<times> pyval) list"

text \<open>
  The truth value of an object in a condition (\<open>if cached:\<close>, \<open>params or {}\<close>).
\<close>

fun truthy :: "pyval \<Rightarrow> bool" where
  "truthy PNone = False"
| "truthy (PBool b) = b"
| "truthy (PInt i) = (i \<noteq> 0)"
| "truthy (PFloat r) = (r \<noteq> 0)"
| "truthy (PStr s) = (s \<noteq> [])"
| "truthy (PList xs) = (xs \<noteq> [])"
| "truthy (PTuple xs) = (xs \<noteq> [])"
| "truthy (PDict kvs) = (kvs \<noteq> [])"

text \<open>
  \<open>obj[key]\<close> for a string key: a dictionary raises \<open>KeyError\<close> for a missing key, every other
  object raises \<open>TypeError\<close>.
\<close>

fun getitem :: "pyval \<Rightarrow> string \<Rightarrow> error + pyval" where
  "getitem (PDict kvs) k = (case map_of kvs k of Some v \<Rightarrow> Inr v | None \<Rightarrow> Inl (KeyError k))"
| "getitem (PStr s) k = Inl (TypeError ''string indices must be integers'')"
| "getitem (PList xs) k = Inl (TypeError ''list indices must be integers or slices, not str'')"
| "getitem (PTuple xs) k = Inl (TypeError ''tuple indices must be integers or slices, not str'')"
| "getitem v k = Inl (TypeError ''object is not subscriptable'')"

subsection \<open>json.dumps\<close>

text \<open>
  A string is written between double quotes with \<open>ensure_ascii\<close> escaping: the quote and
  the backslash get a backslash, the five control characters with a short form get it,
  every other character outside the range from the space to the tilde becomes \<open>\u00XX\<close>
  with lower-case hexadecimal digits.
\<close>

definition backslash :: char where
  "backslash = CHR 0x5C"

definition quote :: char where
  "quote = CHR 0x22"

definition hex_digit :: "nat \<Rightarrow> char" where
  "hex_digit n = ''0123456789abcdef'' ! (n mod 16)"

definition escape_char :: "char \<Rightarrow> string" where
  "escape_char c =
     (if c = quote then [backslash, quote]
      else if c = backslash then [backslash, backslash]
      else if code c = 8 then [backslash, CHR ''b'']
      else if code c = 12 then [backslash, CHR ''f'']
      else if code c = 10 then [backslash, CHR ''n'']
      else if code c = 13 then [backslash, CHR ''r'']
      else if code c = 9 then [backslash, CHR ''t'']
      else if 32 \<le> code c \<and> code c \<le> 126 then [c]
      else [backslash, CHR ''u'', CHR ''0'', CHR ''0'', hex_digit (code c div 16), hex_digit (code c)])"

definition dumps_str :: "string \<Rightarrow> string" where
  "dumps_str s = quote # concat (map escape_char s) @ [quote]"

text \<open>
  \<open>sep.join(parts)\<close>.
\<close>

fun join :: "string \<Rightarrow> string list \<Rightarrow> string" where
  "join sep [] = []"
| "join sep [x] = x"
| "join sep (x # y # ys) = x @ sep @ join sep (y # ys)"

definition dumps_member :: "string \<times> string \<Rightarrow> string" where
  "dumps_member m = dumps_str (fst m) @ '': '' @ snd m"

text \<open>
  \<open>json.dumps(obj, sort_keys=sk)\<close> with the default separators. The text of a float is
  \<open>float.__repr__\<close>, which is given as the function \<open>fr\<close>. A list and a tuple are written the
  same way. With \<open>sort_keys\<close> the members of a dictionary are written in the order of their
  keys, which Python compares code point by code point; the members are serialized here
  before they are sorted, which gives the same text as sorting the items first.
\<close>

fun dumps :: "(real \<Rightarrow> string) \<Rightarrow> bool \<Rightarrow> pyval \<Rightarrow> string"
  and dumps_items :: "(real \<Rightarrow> string) \<Rightarrow> bool \<Rightarrow> pyval list \<Rightarrow> string list"
  and dumps_pairs :: "(real \<Rightarrow> string) \<Rightarrow> bool \<Rightarrow> (string \<times> pyval) list \<Rightarrow> (string \<times> string) list"
where
  "dumps fr sk PNone = ''null''"
| "dumps fr sk (PBool b) = (if b then ''true'' else ''false'')"
| "dumps fr sk (PInt i) = str_int i"
| "dumps fr sk (PFloat r) = fr r"
| "dumps fr sk (PStr s) = dumps_str s"
| "dumps fr sk (PList xs) = ''['' @ join '', '' (dumps_items fr sk xs) @ '']''"
| "dumps fr sk (PTuple xs) = ''['' @ join '', '' (dumps_items fr sk xs) @ '']''"
| "dumps fr sk (PDict kvs) =
     ''{'' @ join '', '' (map dumps_member
              (if sk then sort_key fst (dumps_pairs fr sk kvs) else dumps_pairs fr sk kvs)) @ ''}''"
| "dumps_items fr sk [] = []"
| "dumps_items fr sk (x # xs) = dumps fr sk x # dumps_items fr sk xs"
| "dumps_pairs fr sk [] = []"
| "dumps_pairs fr sk (kv # kvs) = (fst kv, dumps fr sk (snd kv)) # dumps_pairs fr sk kvs"

text \<open>
  The escapes of \<open>json.dumps\<close> form a prefix code: a character is written as itself, as a
  backslash and one character, or as a backslash, \<open>u\<close> and four digits.
\<close>

datatype esc_kind = Plain | Short | Unicode

definition kind :: "char \<Rightarrow> esc_kind" where
  "kind c =
     (if c = quote \<or> c = backslash \<or> code c \<in> {8, 9, 10, 12, 13} then Short
      else if 32 \<le> code c \<and> code c \<le> 126 then Plain else Unicode)"

section \<open>Cache service (app/services/cache_service.py)\<close>

text \<open>
  The library functions the cache service calls and that are not modelled further:
  \<open>hashlib.sha256(data.encode()).hexdigest()\<close>, \<open>float.__repr__\<close> and \<open>json.loads\<close>.
\<close>

record py_lib =
  sha256_hexdigest :: "string \<Rightarrow> string"
  float_repr :: "real \<Rightarrow> string"
  json_loads :: "string \<Rightarrow> error + pyval"

text \<open>
  The local variable \<open>data\<close> of \<open>_generate_key\<close>: \<open>f"{query}:{json.dumps(params or {},
  sort_keys=True)}"\<close>.
\<close>

definition key_data :: "py_lib \<Rightarrow> string \<Rightarrow> pyval \<Rightarrow> string" where
  "key_data lib query params =
     query @ '':'' @ dumps (float_repr lib) True (if truthy params then params else PDict [])"

text \<open>
  \<open>CacheService._generate_key\<close>.
\<close>

definition generate_key :: "py_lib \<Rightarrow> string \<Rightarrow> pyval \<Rightarrow> string" where
  "generate_key lib query params = ''query:'' @ sha256_hexdigest lib (key_data lib query params)"

text \<open>
  The state of the service: its \<open>enabled\<close> and \<open>ttl\<close> attributes and the Redis client, which
  is reachable or not and holds a text under some keys. Expiry of the entries is not
  modelled.
\<close>

record CacheService =
  enabled :: bool
  ttl :: int
  client_up :: bool
  entries :: "string \<Rightarrow> string option"

text \<open>
  \<open>CacheService.get\<close>: \<open>None\<close> when the service is disabled, when the client or
  \<open>json.loads\<close> raises, when the key is absent or its text is empty; the decoded value
  otherwise.
\<close>

definition cache_get :: "py_lib \<Rightarrow> CacheService \<Rightarrow> string \<Rightarrow> pyval \<Rightarrow> pyval" where
  "cache_get lib cache query params =
     (if \<not> enabled cache then PNone
      else if \<not> client_up cache then PNone
      else case entries cache (generate_key lib query params) of
             None \<Rightarrow> PNone
           | Some data \<Rightarrow>
               if data \<noteq> [] then (case json_loads lib data of Inl e \<Rightarrow> PNone | Inr v \<Rightarrow> v)
               else PNone)"

text \<open>
  \<open>CacheService.set\<close>: nothing is stored when the service is disabled or the client
  raises.
\<close>

definition cache_set :: "py_lib \<Rightarrow> CacheService \<Rightarrow> string \<Rightarrow> pyval \<Rightarrow> pyval \<Rightarrow> bool \<times> CacheService" where
  "cache_set lib cache query val params =
     (if \<not> enabled cache then (False, cache)
      else let key = generate_key lib query params;
               data = dumps (float_repr lib) False val
           in if \<not> client_up cache then (False, cache)
              else (True, cache \<lparr> entries := (entries cache) (key \<mapsto> data) \<rparr>))"

section \<open>GraphRAG engine (app/graphrag/engine.py)\<close>

text \<open>
  The collaborators of the engine as functions: the library, the settings, the Neo4j
  service (\<open>get_schema\<close>, \<open>validate_cypher\<close>, \<open>execute_cypher\<close>), the Cypher generator, the
  response formatter, and the elapsed time the clock gives at the end of a request.
\<close>

record Services =
  library :: py_lib
  settings :: Settings
  get_schema :: "error + pyval"
  generate :: "string \<Rightarrow> pyval \<Rightarrow> string option \<Rightarrow> error + string"
  validate_cypher :: "string \<Rightarrow> bool \<times> string option"
  execute_cypher :: "string \<Rightarrow> error + pyval \<times> real"
  format_natural_response :: "string \<Rightarrow> pyval \<Rightarrow> error + string"
  total_time :: real

text \<open>
  The calls the engine makes, recorded in the order it makes them, so that a statement
  can say which of them a request performed.
\<close>

datatype step =
    CacheLookup | SchemaFetch | Generation | Optimization | ReadOnlyCheck | Validation
  | Execution | ResponseFormatting | CacheStore

type_synonym answer = "pyval \<times> pyval \<times> pyval \<times> pyval"

text \<open>
  The parameter dictionary \<open>{"context": context}\<close> of the cache calls.
\<close>

definition context_params :: "string option \<Rightarrow> pyval" where
  "context_params context =
     PDict [(''context'', case context of None \<Rightarrow> PNone | Some c \<Rightarrow> PStr c)]"

text \<open>
  The tuple built from a cache hit; the four subscripts are evaluated from left to
  right.
\<close>

definition cached_answer :: "pyval \<Rightarrow> error + answer" where
  "cached_answer cached =
     (case getitem cached ''cypher'' of Inl e \<Rightarrow> Inl e | Inr c \<Rightarrow>
      case getitem cached ''results'' of Inl e \<Rightarrow> Inl e | Inr r \<Rightarrow>
      case getitem cached ''execution_time'' of Inl e \<Rightarrow> Inl e | Inr t \<Rightarrow>
      case getitem cached ''answer'' of Inl e \<Rightarrow> Inl e | Inr a \<Rightarrow> Inr (c, r, t, a))"

text \<open>
  An optional string inside an f-string.
\<close>

definition str_optional :: "string option \<Rightarrow> string" where
  "str_optional v = (case v of None \<Rightarrow> ''None'' | Some s \<Rightarrow> s)"

definition invalid_generated :: "string option \<Rightarrow> string" where
  "invalid_generated validation_error =
     ''Le LLM a g'' @ [CHR 0xE9] @ ''n'' @ [CHR 0xE9] @ ''r'' @ [CHR 0xE9]
       @ '' une requ'' @ [CHR 0xEA] @ ''te invalide: '' @ str_optional validation_error"

text \<open>
  The end of \<open>process_natural_query\<close>: the answer is stored when caching is requested
  and enabled, and returned.
\<close>

definition answer_and_store ::
  "Services \<Rightarrow> CacheService \<Rightarrow> string \<Rightarrow> string option \<Rightarrow> bool \<Rightarrow> step list \<Rightarrow> string \<Rightarrow> pyval
     \<Rightarrow> string \<Rightarrow> step list \<times> CacheService \<times> (error + answer)" where
  "answer_and_store sv cache question context use_cache steps cypher results natural_answer =
     (if use_cache \<and> enabled cache then
        (steps @ [CacheStore],
         snd (cache_set (library sv) cache question
                (PDict [(''cypher'', PStr cypher), (''results'', results),
                        (''execution_time'', PFloat (total_time sv)),
                        (''answer'', PStr natural_answer)])
                (context_params context)),
         Inr (PStr cypher, results, PFloat (total_time sv), PStr natural_answer))
      else (steps, cache, Inr (PStr cypher, results, PFloat (total_time sv), PStr natural_answer)))"

text \<open>
  The part of \<open>process_natural_query\<close> after the cache lookup: schema, generation,
  optimization, read-only check, validation, execution and formatting, each raise ending
  the request.
\<close>

definition generate_and_execute ::
  "Services \<Rightarrow> CacheService \<Rightarrow> string \<Rightarrow> string option \<Rightarrow> bool \<Rightarrow> step list
     \<Rightarrow> step list \<times> CacheService \<times> (error + answer)" where
  "generate_and_execute sv cache question context use_cache steps =
     (case get_schema sv of
        Inl e \<Rightarrow> (steps @ [SchemaFetch], cache, Inl e)
      | Inr schema \<Rightarrow>
     (case generate sv question schema context of
        Inl e \<Rightarrow> (steps @ [SchemaFetch, Generation], cache, Inl e)
      | Inr generated \<Rightarrow>
     (let cypher = optimize (settings sv) generated;
          (is_ro, error_msg) = is_read_only (settings sv) cypher
      in if \<not> is_ro then
           (steps @ [SchemaFetch, Generation, Optimization, ReadOnlyCheck], cache,
            Inl (InvalidCypherQueryError error_msg))
         else
     (let (is_valid, validation_error) = validate_cypher sv cypher
      in if \<not> is_valid then
           (steps @ [SchemaFetch, Generation, Optimization, ReadOnlyCheck, Validation], cache,
            Inl (InvalidCypherQueryError (invalid_generated validation_error)))
         else
     (case execute_cypher sv cypher of
        Inl e \<Rightarrow>
          (steps @ [SchemaFetch, Generation, Optimization, ReadOnlyCheck, Validation, Execution],
           cache, Inl e)
      | Inr (results, query_time) \<Rightarrow>
     (case format_natural_response sv question results of
        Inl e \<Rightarrow>
          (steps @ [SchemaFetch, Generation, Optimization, ReadOnlyCheck, Validation, Execution,
                    ResponseFormatting], cache, Inl e)
      | Inr natural_answer \<Rightarrow>
          answer_and_store sv cache question context use_cache
            (steps @ [SchemaFetch, Generation, Optimization, ReadOnlyCheck, Validation,
                      Execution, ResponseFormatting])
            cypher results natural_answer))))))"

text \<open>
  \<open>GraphRAGEngine.process_natural_query\<close>: the steps performed, the cache afterwards and
  the returned tuple or the exception.
\<close>

definition process_natural_query ::
  "Services \<Rightarrow> CacheService \<Rightarrow> string \<Rightarrow> string option \<Rightarrow> bool
     \<Rightarrow> step list \<times> CacheService \<times> (error + answer)" where
  "process_natural_query sv cache question context use_cache =
     (if use_cache \<and> enabled cache then
        (let cached = cache_get (library sv) cache question (context_params context)
         in if truthy cached then ([CacheLookup], cache, cached_answer cached)
            else generate_and_execute sv cache question context use_cache [CacheLookup])
      else generate_and_execute sv cache question context use_cache [])"

definition limit_warning :: "Settings \<Rightarrow> string" where
  "limit_warning c =
     ''Pas de LIMIT sp'' @ [CHR 0xE9] @ ''cifi'' @ [CHR 0xE9] @ ''. Un LIMIT de ''
       @ str_int (default_query_limit c) @ '' sera automatiquement ajout'' @ [CHR 0xE9] @ ''.''"

text \<open>
  \<open>GraphRAGEngine.validate_query\<close>.
\<close>

definition validate_query ::
  "Services \<Rightarrow> string \<Rightarrow> bool \<Rightarrow> bool \<times> bool \<times> string option \<times> string list" where
  "validate_query sv cypher check_read_only =
     (let warnings = [];
          (is_valid, error_msg) = validate_cypher sv cypher
      in if \<not> is_valid then (False, False, error_msg, warnings)
         else
           (let (is_ro, error_msg) =
                  (if check_read_only then
                     (let (ro, read_only_error) = is_read_only (settings sv) cypher
                      in (ro, if \<not> ro then Some read_only_error else error_msg))
                   else (True, error_msg));
                warnings = (if \<not> has_limit cypher
                            then warnings @ [limit_warning (settings sv)] else warnings)
            in (is_valid, is_ro, error_msg, warnings)))"

subsection \<open>Stubs\<close>

text \<open>
  Collaborators for the examples: a library whose digest is the text itself and whose
  \<open>json.loads\<close> knows one stored text, services that fail when called (but for the syntax
  check, which is told what to answer), and a cache holding one entry.
\<close>

definition stub_lib :: py_lib where
  "stub_lib =
     \<lparr> sha256_hexdigest = (\<lambda>data. data),
       float_repr = (\<lambda>r. ''12.5''),
       json_loads = (\<lambda>text.
         if text = ''stored''
         then Inr (PDict [(''cypher'', PStr ''MATCH (n) RETURN n LIMIT 100''),
                          (''results'', PList [PDict [(''n'', PInt 1)]]),
                          (''execution_time'', PFloat 12.5),
                          (''answer'', PStr ''one node'')])
         else Inl (ValueError ''Expecting value'')) \<rparr>"

definition stub_services :: "bool \<Rightarrow> Services" where
  "stub_services syntax_ok =
     \<lparr> library = stub_lib, settings = default_settings,
       get_schema = Inl (ServiceError ''schema stub called''),
       generate = (\<lambda>question schema context. Inl (ServiceError ''generator stub called'')),
       validate_cypher = (\<lambda>cypher. if syntax_ok then (True, None) else (False, Some ''Invalid input'')),
       execute_cypher = (\<lambda>cypher. Inl (ServiceError ''database stub called'')),
       format_natural_response = (\<lambda>question results. Inl (ServiceError ''formatter stub called'')),
       total_time = 0 \<rparr>"

definition stub_cache :: CacheService where
  "stub_cache =
     \<lparr> enabled = True, ttl = 3600, client_up = True,
       entries = (\<lambda>key. if key = generate_key stub_lib ''how many nodes?'' (context_params None)
                         then Some ''stored'' else None) \<rparr>"

section \<open>JSON Web Tokens (app/core/security.py)\<close>

subsection \<open>Dictionaries and integers\<close>

text \<open>
  \<open>d.get(k)\<close>: the value, or \<open>None\<close> for a missing key.
\<close>

fun dict_get :: "(string \<times> pyval) list \<Rightarrow> string \<Rightarrow> pyval" where
  "dict_get kvs k = (case map_of kvs k of None \<Rightarrow> PNone | Some v \<Rightarrow> v)"

text \<open>
  \<open>d[k] = v\<close> and \<open>d.update(other)\<close>: an existing key keeps its place, a new key goes to the
  end.
\<close>

fun dict_set :: "(string \<times> 'v) list \<Rightarrow> string \<Rightarrow> 'v \<Rightarrow> (string \<times> 'v) list" where
  "dict_set [] k v = [(k, v)]"
| "dict_set (kv # kvs) k v = (if fst kv = k then (k, v) # kvs else kv # dict_set kvs k v)"

fun dict_update :: "(string \<times> 'v) list \<Rightarrow> (string \<times> 'v) list \<Rightarrow> (string \<times> 'v) list" where
  "dict_update d [] = d"
| "dict_update d (kv # kvs) = dict_update (dict_set d (fst kv) (snd kv)) kvs"

text \<open>
  \<open>s.strip()\<close>.
\<close>

definition strip :: "string \<Rightarrow> string" where
  "strip s = dropWhile is_space (rev (dropWhile is_space (rev s)))"

text \<open>
  \<open>int(s)\<close> for a string: surrounding white space is ignored, a sign may come first, and
  the rest must be decimal digits, where single underscores may stand between digits;
  anything else raises \<open>ValueError\<close>.
\<close>

fun no_double_underscore :: "string \<Rightarrow> bool" where
  "no_double_underscore (a # b # cs) =
     (\<not> (a = CHR ''_'' \<and> b = CHR ''_'') \<and> no_double_underscore (b # cs))"
| "no_double_underscore cs = True"

definition int_literal_body :: "string \<Rightarrow> bool" where
  "int_literal_body b =
     (b \<noteq> [] \<and> is_digit (hd b) \<and> is_digit (last b)
      \<and> list_all (\<lambda>c. is_digit c \<or> c = CHR ''_'') b \<and> no_double_underscore b)"

definition nat_of_digits :: "string \<Rightarrow> nat" where
  "nat_of_digits ds = foldl (\<lambda>a c. 10 * a + (code c - 48)) 0 ds"

definition int_of_str :: "string \<Rightarrow> error + int" where
  "int_of_str s =
     (let t = strip s;
          neg = (t \<noteq> [] \<and> hd t = CHR ''-'');
          body = (if t \<noteq> [] \<and> (hd t = CHR ''-'' \<or> hd t = CHR ''+'') then tl t else t)
      in if int_literal_body body
         then Inr ((if neg then - 1 else 1) * int (nat_of_digits (filter is_digit body)))
         else Inl (ValueError ''invalid literal for int() with base 10''))"

text \<open>
  \<open>int(x)\<close> for an object: a float is truncated towards zero, a string is parsed, and an
  object that is neither a number nor a string raises \<open>TypeError\<close>.
\<close>

definition truncate :: "real \<Rightarrow> int" where
  "truncate r = (if 0 \<le> r then \<lfloor>r\<rfloor> else \<lceil>r\<rceil>)"

fun py_int :: "pyval \<Rightarrow> error + int" where
  "py_int (PInt i) = Inr i"
| "py_int (PBool b) = Inr (if b then 1 else 0)"
| "py_int (PFloat r) = Inr (truncate r)"
| "py_int (PStr s) = int_of_str s"
| "py_int v = Inl (TypeError ''int() argument must be a string, a bytes-like object or a real number'')"

text \<open>
  What \<open>json.loads(json.dumps(v))\<close> gives back for a value with string keys: the value
  with every tuple turned into a list.
\<close>

fun json_roundtrip :: "pyval \<Rightarrow> pyval"
  and json_roundtrip_items :: "pyval list \<Rightarrow> pyval list"
  and json_roundtrip_pairs :: "(string \<times> pyval) list \<Rightarrow> (string \<times> pyval) list"
where
  "json_roundtrip (PList xs) = PList (json_roundtrip_items xs)"
| "json_roundtrip (PTuple xs) = PList (json_roundtrip_items xs)"
| "json_roundtrip (PDict kvs) = PDict (json_roundtrip_pairs kvs)"
| "json_roundtrip PNone = PNone"
| "json_roundtrip (PBool b) = PBool b"
| "json_roundtrip (PInt i) = PInt i"
| "json_roundtrip (PFloat r) = PFloat r"
| "json_roundtrip (PStr s) = PStr s"
| "json_roundtrip_items [] = []"
| "json_roundtrip_items (x # xs) = json_roundtrip x # json_roundtrip_items xs"
| "json_roundtrip_pairs [] = []"
| "json_roundtrip_pairs (kv # kvs) = (fst kv, json_roundtrip (snd kv)) # json_roundtrip_pairs kvs"

subsection \<open>The jose library\<close>

text \<open>
  \<open>jwt.encode\<close> and \<open>jwt.decode\<close> belong to python-jose, which is not part of the
  repository; they are modelled after the behaviour of that library with its default
  options, as far as \<open>TokenManager\<close> depends on it.

  A value of the claims dictionary given to \<open>jwt.encode\<close> is a JSON value or a \<open>datetime\<close>,
  the latter by its POSIX time stamp in seconds.
\<close>

datatype claim_value = Json pyval | Datetime int

text \<open>
  The key is a shared secret, a plain text as the default of \<open>secret_key\<close> is. Of the
  algorithms jose supports, only the HMAC ones sign with such a key.
\<close>

datatype hmac_algorithm = HS256 | HS384 | HS512

fun alg_name :: "hmac_algorithm \<Rightarrow> string" where
  "alg_name HS256 = ''HS256''"
| "alg_name HS384 = ''HS384''"
| "alg_name HS512 = ''HS512''"

definition hmac_of :: "string \<Rightarrow> hmac_algorithm option" where
  "hmac_of alg =
     (if alg = ''HS256'' then Some HS256
      else if alg = ''HS384'' then Some HS384
      else if alg = ''HS512'' then Some HS512
      else None)"

definition SUPPORTED :: "string list" where
  "SUPPORTED =
     [''HS256'', ''HS384'', ''HS512'', ''RS256'', ''RS384'', ''RS512'', ''ES256'', ''ES384'', ''ES512'']"

text \<open>
  A token is modelled by what a compact JWS carries: the algorithm of its header, the
  key that signed it and its claims as \<open>json.loads\<close> returns them. Signatures are taken to be
  unforgeable, so a token verifies under a key exactly when that key signed it. A string
  that is not a compact JWS is \<open>Malformed\<close>, with the message jose refuses it with. Tokens
  signed otherwise than with HMAC are not modelled.
\<close>

datatype token = Token hmac_algorithm string "(string \<times> pyval) list" | Malformed string

text \<open>
  The exceptions of \<open>jwt.decode\<close>: \<open>ExpiredSignatureError\<close> and \<open>JWTClaimsError\<close>, which both
  derive from \<open>JWTError\<close>, \<open>JWTError\<close> itself, and any other exception that escapes the
  library.
\<close>

datatype jose_error =
    ExpiredSignatureError string
  | JWTClaimsError string
  | JWTError string
  | Uncaught error

text \<open>
  \<open>jwt.encode\<close> replaces a \<open>datetime\<close> under \<open>exp\<close>, \<open>iat\<close> or \<open>nbf\<close> by its time stamp,
  refuses an algorithm it does not support, serializes the claims as JSON, which a
  \<open>datetime\<close> anywhere else does not survive, and signs, which fails when the algorithm
  cannot use the key.
\<close>

fun encode_claims :: "(string \<times> claim_value) list \<Rightarrow> error + (string \<times> pyval) list" where
  "encode_claims [] = Inr []"
| "encode_claims (kv # kvs) =
     (case (case snd kv of
              Json v \<Rightarrow> Inr (json_roundtrip v)
            | Datetime t \<Rightarrow>
                if fst kv \<in> {''exp'', ''iat'', ''nbf''} then Inr (PInt t)
                else Inl (TypeError ''Object of type datetime is not JSON serializable'')) of
        Inl e \<Rightarrow> Inl e
      | Inr v \<Rightarrow> (case encode_claims kvs of Inl e \<Rightarrow> Inl e | Inr rest \<Rightarrow> Inr ((fst kv, v) # rest)))"

definition jwt_encode :: "(string \<times> claim_value) list \<Rightarrow> string \<Rightarrow> string \<Rightarrow> error + token" where
  "jwt_encode claims key alg =
     (if alg \<notin> set SUPPORTED then Inl JWSError
      else case encode_claims claims of
             Inl e \<Rightarrow> Inl e
           | Inr cs \<Rightarrow> (case hmac_of alg of None \<Rightarrow> Inl JWSError | Some a \<Rightarrow> Inr (Token a key cs)))"

definition is_str :: "pyval \<Rightarrow> bool" where
  "is_str v = (case v of PStr s \<Rightarrow> True | _ \<Rightarrow> False)"

text \<open>
  The time claims are validated through \<open>int(claims[name])\<close>, of which jose catches
  only \<open>ValueError\<close>.
\<close>

definition int_claim :: "(string \<times> pyval) list \<Rightarrow> string \<Rightarrow> string \<Rightarrow> jose_error + int option" where
  "int_claim claims name msg =
     (case map_of claims name of
        None \<Rightarrow> Inr None
      | Some v \<Rightarrow>
          (case py_int v of
             Inr i \<Rightarrow> Inr (Some i)
           | Inl (ValueError m) \<Rightarrow> Inl (JWTClaimsError msg)
           | Inl e \<Rightarrow> Inl (Uncaught e)))"

text \<open>
  The validation of the claims by \<open>jwt.decode\<close> with default options, no audience,
  issuer, subject or access token, and no leeway, in the order jose applies it: \<open>iat\<close> must
  convert to an integer; so must \<open>nbf\<close>, which must not lie in the future; so must \<open>exp\<close>,
  which must not lie in the past; then the claims \<open>aud\<close>, \<open>sub\<close>, \<open>jti\<close> and \<open>at_hash\<close>.
\<close>

definition validate_iat :: "(string \<times> pyval) list \<Rightarrow> jose_error option" where
  "validate_iat claims =
     (case int_claim claims ''iat'' ''Issued At claim (iat) must be an integer.'' of
        Inl e \<Rightarrow> Some e | Inr i \<Rightarrow> None)"

definition validate_nbf :: "int \<Rightarrow> (string \<times> pyval) list \<Rightarrow> jose_error option" where
  "validate_nbf now claims =
     (case int_claim claims ''nbf'' ''Not Before claim (nbf) must be an integer.'' of
        Inl e \<Rightarrow> Some e
      | Inr None \<Rightarrow> None
      | Inr (Some nbf) \<Rightarrow>
          if nbf > now then Some (JWTClaimsError ''The token is not yet valid (nbf)'') else None)"

definition validate_exp :: "int \<Rightarrow> (string \<times> pyval) list \<Rightarrow> jose_error option" where
  "validate_exp now claims =
     (case int_claim claims ''exp'' ''Expiration Time claim (exp) must be an integer.'' of
        Inl e \<Rightarrow> Some e
      | Inr None \<Rightarrow> None
      | Inr (Some expiry) \<Rightarrow>
          if expiry < now then Some (ExpiredSignatureError ''Signature has expired.'') else None)"

definition validate_other :: "(string \<times> pyval) list \<Rightarrow> jose_error option" where
  "validate_other claims =
     (if map_of claims ''aud'' \<noteq> None then Some (JWTClaimsError ''Invalid audience'')
      else if (case map_of claims ''sub'' of None \<Rightarrow> False | Some v \<Rightarrow> \<not> is_str v)
        then Some (JWTClaimsError ''Subject must be a string.'')
      else if (case map_of claims ''jti'' of None \<Rightarrow> False | Some v \<Rightarrow> \<not> is_str v)
        then Some (JWTClaimsError ''JWT ID must be a string.'')
      else if map_of claims ''at_hash'' \<noteq> None
        then Some (JWTClaimsError ''No access_token provided to compare against at_hash claim.'')
      else None)"

definition validate_claims :: "int \<Rightarrow> (string \<times> pyval) list \<Rightarrow> jose_error option" where
  "validate_claims now claims =
     (case validate_iat claims of Some e \<Rightarrow> Some e | None \<Rightarrow>
      case validate_nbf now claims of Some e \<Rightarrow> Some e | None \<Rightarrow>
      case validate_exp now claims of Some e \<Rightarrow> Some e | None \<Rightarrow>
      validate_other claims)"

text \<open>
  \<open>jwt.decode(token, key, algorithms)\<close> at the time \<open>now\<close>: the token must be well
  formed, its algorithm allowed, its signature made with the key, and its claims valid.
\<close>

definition jwt_decode ::
  "int \<Rightarrow> token \<Rightarrow> string \<Rightarrow> string list \<Rightarrow> jose_error + (string \<times> pyval) list" where
  "jwt_decode now tok key algorithms =
     (case tok of
        Malformed m \<Rightarrow> Inl (JWTError m)
      | Token alg signing_key claims \<Rightarrow>
          if alg_name alg \<notin> set algorithms then Inl (JWTError ''The specified alg value is not allowed'')
          else if signing_key \<noteq> key then Inl (JWTError ''Signature verification failed.'')
          else (case validate_claims now claims of Some e \<Rightarrow> Inl e | None \<Rightarrow> Inr claims))"

subsection \<open>TokenManager\<close>

text \<open>
  A reading of \<open>datetime.now(timezone.utc)\<close>: its POSIX time stamp and its \<open>isoformat()\<close>
  text.
\<close>

record clock =
  posix :: int
  isoformat :: string

text \<open>
  The claims both \<open>create_access_token\<close> and \<open>create_refresh_token\<close> encode: a copy of
  \<open>data\<close> updated with \<open>exp\<close> (a \<open>datetime\<close>: now plus \<open>expires_delta\<close>, or plus the default
  when \<open>expires_delta\<close> is \<open>None\<close> or zero), \<open>iat\<close> (the ISO text of now followed by \<open>Z\<close>) and
  \<open>type\<close>. Durations are in seconds.
\<close>

definition token_claims ::
  "clock \<Rightarrow> (string \<times> pyval) list \<Rightarrow> int option \<Rightarrow> int \<Rightarrow> string \<Rightarrow> (string \<times> claim_value) list" where
  "token_claims now data expires_delta default_seconds token_type =
     (let to_encode = map (\<lambda>kv. (fst kv, Json (snd kv))) data;
          expire = (case expires_delta of
                      Some d \<Rightarrow> if d \<noteq> 0 then posix now + d else posix now + default_seconds
                    | None \<Rightarrow> posix now + default_seconds)
      in dict_update to_encode
           [(''exp'', Datetime expire),
            (''iat'', Json (PStr (isoformat now @ ''Z''))),
            (''type'', Json (PStr token_type))])"

text \<open>
  \<open>TokenManager.create_access_token\<close> and \<open>TokenManager.create_refresh_token\<close>.
\<close>

definition create_access_token ::
  "Settings \<Rightarrow> clock \<Rightarrow> (string \<times> pyval) list \<Rightarrow> int option \<Rightarrow> error + token" where
  "create_access_token c now data expires_delta =
     jwt_encode (token_claims now data expires_delta (access_token_expire_minutes c * 60) ''access'')
       (secret_key c) (algorithm c)"

definition create_refresh_token ::
  "Settings \<Rightarrow> clock \<Rightarrow> (string \<times> pyval) list \<Rightarrow> int option \<Rightarrow> error + token" where
  "create_refresh_token c now data expires_delta =
     jwt_encode (token_claims now data expires_delta (refresh_token_expire_days c * 86400) ''refresh'')
       (secret_key c) (algorithm c)"

text \<open>
  \<open>TokenManager.verify_token\<close> at the time \<open>now\<close>: the three \<open>except\<close> clauses turn the
  exceptions of jose into \<open>UnauthorizedError\<close>; any other exception propagates.
\<close>

definition verify_token ::
  "Settings \<Rightarrow> int \<Rightarrow> token \<Rightarrow> string \<Rightarrow> error + (string \<times> pyval) list" where
  "verify_token c now tok token_type =
     (case jwt_decode now tok (secret_key c) [algorithm c] of
        Inl (ExpiredSignatureError m) \<Rightarrow> Inl (UnauthorizedError (''Token expir'' @ [CHR 0xE9]))
      | Inl (JWTClaimsError m) \<Rightarrow> Inl (UnauthorizedError ''Claims du token invalides'')
      | Inl (JWTError m) \<Rightarrow> Inl (UnauthorizedError (''Token invalide: '' @ m))
      | Inl (Uncaught e) \<Rightarrow> Inl e
      | Inr payload \<Rightarrow>
          if dict_get payload ''type'' \<noteq> PStr token_type
          then Inl (UnauthorizedError (''Type de token invalide: attendu '' @ token_type))
          else Inr payload)"

definition example_clock :: clock where
  "example_clock = \<lparr> posix = 1735689600, isoformat = ''2025-01-01T00:00:00+00:00'' \<rparr>"

text \<open>
  Which items \<open>jwt.encode\<close> can serialize, and what it makes of a value.
\<close>

definition encodable :: "string \<times> claim_value \<Rightarrow> bool" where
  "encodable kv = (case snd kv of Json v \<Rightarrow> True | Datetime t \<Rightarrow> fst kv \<in> {''exp'', ''iat'', ''nbf''})"

definition encoded :: "claim_value \<Rightarrow> pyval" where
  "encoded v = (case v of Json j \<Rightarrow> json_roundtrip j | Datetime t \<Rightarrow> PInt t)"


section \<open>Properties of the string operations and the patterns\<close>

lemma re_search_iff: "re_search m s \<longleftrightarrow> (\<exists>i\<le>length s. m s i)"
  by (auto simp: re_search_def list_ex_iff less_Suc_eq_le simp del: upt_Suc)

lemma code_less: "code c < 256"
  by (simp add: code_def)

lemma code_char_of: "n < 256 \<Longrightarrow> code (char_of n) = n"
  by (simp add: code_def)

lemma code_inj: "code a = code b \<Longrightarrow> a = b"
  by (simp add: code_def)



lemma is_word_upperI: "is_upper c \<Longrightarrow> is_word c"
  by (simp add: is_word_def)

lemma is_word_lowerI: "is_lower c \<Longrightarrow> is_word c"
  by (simp add: is_word_def)












lemma code_to_lower:
  "code (to_lower c) =
     (if is_upper c \<or> (0xC0 \<le> code c \<and> code c \<le> 0xDE \<and> code c \<noteq> 0xD7) then code c + 32 else code c)"
proof -
  have "code c + 32 < 256" if "is_upper c \<or> (0xC0 \<le> code c \<and> code c \<le> 0xDE \<and> code c \<noteq> 0xD7)"
    using that unfolding is_upper_def by arith
  then show ?thesis
    by (simp add: to_lower_def code_char_of)
qed



subsection \<open>Upper-cased text\<close>






subsection \<open>Patterns\<close>

lemma word_boundary_append_left:
  "word_boundary w (pre @ rest) (length pre) =
     ((pre \<noteq> [] \<and> w (last pre)) \<noteq> (rest \<noteq> [] \<and> w (hd rest)))"
  by (cases rest; cases pre rule: rev_cases) (auto simp: word_boundary_def nth_append)




subsection \<open>Keywords\<close>








subsection \<open>The LIMIT clause\<close>

lemma is_digit_not_space: "is_digit c \<Longrightarrow> \<not> is_space c"
  by (auto simp: is_digit_def is_space_def)

lemma to_lower_lowerD:
  assumes "is_lower (to_lower c)"
  shows "is_word c"
proof (cases "is_upper c \<or> is_lower c")
  case True
  then show ?thesis using is_word_upperI is_word_lowerI by blast
next
  case False
  have "97 \<le> code (to_lower c) \<and> code (to_lower c) \<le> 122"
    using assms by (simp add: is_lower_def)
  then have False
    using False unfolding code_to_lower is_upper_def is_lower_def by (auto split: if_splits)
  then show ?thesis ..
qed

lemma lower_LIMIT: "lower ''LIMIT'' = ''limit''"
  by code_simp

lemma limit_word_D:
  assumes "lower kw = ''limit''"
  shows "length kw = 5" "kw \<noteq> []" "is_word (hd kw)"
proof -
  show l: "length kw = 5"
    using arg_cong [OF assms, of length] by (simp add: lower_def)
  then show n: "kw \<noteq> []" by auto
  have "to_lower (hd kw) = CHR ''l''"
    using assms n by (cases kw) (auto simp: lower_def)
  then have "is_lower (to_lower (hd kw))"
    by (simp add: is_lower_def code_def)
  then show "is_word (hd kw)"
    by (rule to_lower_lowerD)
qed

lemma limit_at_append:
  assumes "lower kw = ''limit''"
  shows "limit_at (pre @ kw @ rest) (length pre) \<longleftrightarrow>
           (pre = [] \<or> \<not> is_word (last pre)) \<and>
           (case rest of [] \<Rightarrow> False
            | c # r \<Rightarrow> is_space c \<and> (case dropWhile is_space r of [] \<Rightarrow> False | d # _ \<Rightarrow> is_digit d))"
proof -
  note k = limit_word_D [OF assms]
  have b: "word_boundary is_word (pre @ kw @ rest) (length pre) \<longleftrightarrow> (pre = [] \<or> \<not> is_word (last pre))"
    using k by (auto simp: word_boundary_append_left)
  have l5: "length ''LIMIT'' = 5"
    by simp
  have l: "literal_ignorecase_at ''LIMIT'' (pre @ kw @ rest) (length pre)"
    unfolding literal_ignorecase_at_def l5 lower_LIMIT using assms k(1) by simp
  have d: "drop (length pre + 5) (pre @ kw @ rest) = rest"
    using k(1) by simp
  show ?thesis
    unfolding limit_at_def d using b l by simp
qed

lemma has_limit_iff: "has_limit q = contains_limit_clause q"
proof
  assume "has_limit q"
  then obtain i where i: "i \<le> length q" "limit_at q i"
    by (auto simp: has_limit_def re_search_iff)
  define pre where "pre = take i q"
  define kw where "kw = take 5 (drop i q)"
  define rest where "rest = drop (i + 5) q"
  have q: "q = pre @ kw @ rest"
    unfolding pre_def kw_def rest_def
    by (metis add.commute append_take_drop_id drop_drop)
  have l5: "length ''LIMIT'' = 5"
    by simp
  from i(2) have "lower (take 5 (drop i q)) = ''limit''"
    unfolding limit_at_def literal_ignorecase_at_def l5 lower_LIMIT by blast
  then have uk: "lower kw = ''limit''"
    unfolding kw_def .
  have lp: "length pre = i"
    using i(1) by (simp add: pre_def)
  have "limit_at (pre @ kw @ rest) (length pre)"
    using i(2) q lp by simp
  then have p: "pre = [] \<or> \<not> is_word (last pre)"
    and r: "case rest of [] \<Rightarrow> False
            | c # r \<Rightarrow> is_space c \<and> (case dropWhile is_space r of [] \<Rightarrow> False | d # _ \<Rightarrow> is_digit d)"
    using limit_at_append [OF uk, of pre rest] by blast+
  from r obtain c r' d post where rest: "rest = c # r'" and c: "is_space c"
    and dw: "dropWhile is_space r' = d # post" and d: "is_digit d"
    by (auto split: list.splits)
  have "r' = takeWhile is_space r' @ d # post"
    using dw takeWhile_dropWhile_id [of is_space r'] by simp
  then have "q = pre @ kw @ (c # takeWhile is_space r') @ [d] @ post"
    using q rest by simp
  moreover have "\<forall>x\<in>set (c # takeWhile is_space r'). is_space x"
    using c by (auto dest: set_takeWhileD)
  ultimately show "contains_limit_clause q"
    unfolding contains_limit_clause_def using uk p d
    by (intro exI [of _ pre] exI [of _ kw] exI [of _ "c # takeWhile is_space r'"]
        exI [of _ "[d]"] exI [of _ post]) simp
next
  assume "contains_limit_clause q"
  then obtain pre kw ws ds post where q: "q = pre @ kw @ ws @ ds @ post"
    and uk: "lower kw = ''limit''" and p: "pre = [] \<or> \<not> is_word (last pre)"
    and ws: "ws \<noteq> []" "\<forall>c\<in>set ws. is_space c" and ds: "ds \<noteq> []" "\<forall>c\<in>set ds. is_digit c"
    unfolding contains_limit_clause_def by blast
  obtain c r where w: "ws = c # r" using ws(1) by (cases ws) auto
  obtain d e where dd: "ds = d # e" using ds(1) by (cases ds) auto
  have "dropWhile is_space (r @ ds @ post) = ds @ post"
    using ws(2) ds(2) w dd by (simp add: dropWhile_append2 is_digit_not_space)
  then have "limit_at (pre @ kw @ (ws @ ds @ post)) (length pre)"
    unfolding limit_at_append [OF uk] using p ws(2) ds(2) w dd by simp
  then have "limit_at q (length pre)" using q by simp
  moreover have "length pre \<le> length q" using q by simp
  ultimately show "has_limit q"
    unfolding has_limit_def re_search_iff by blast
qed

lemma str_nat_digits: "str_nat n \<noteq> [] \<and> (\<forall>c\<in>set (str_nat n). is_digit c)"
proof (induction n rule: str_nat.induct)
  case (1 n)
  have d: "is_digit (char_of (48 + k))" if "k < 10" for k :: nat
    using that by (simp add: is_digit_def code_def)
  show ?case
  proof (cases "n < 10")
    case True
    then show ?thesis using d [of n] by (simp add: str_nat.simps [of n])
  next
    case False
    then show ?thesis using 1 d [of "n mod 10"] by (simp add: str_nat.simps [of n])
  qed
qed

lemma has_limit_add_limit:
  assumes "0 \<le> limit"
  shows "has_limit (add_limit cypher limit)"
proof -
  have "add_limit cypher limit =
      (rstrip CHR '';'' cypher @ '' '') @ ''LIMIT'' @ '' '' @ str_nat (nat limit) @ []"
    using assms by (simp add: add_limit_def str_int_def)
  moreover have "\<not> is_word CHR '' ''" "is_space CHR '' ''"
    by (simp_all add: is_word_def is_digit_def is_upper_def is_lower_def is_space_def code_def)
  ultimately show ?thesis
    unfolding has_limit_iff contains_limit_clause_def using str_nat_digits [of "nat limit"] lower_LIMIT
    by (intro exI [of _ "rstrip CHR '';'' cypher @ '' ''"] exI [of _ "''LIMIT''"]
        exI [of _ "'' ''"] exI [of _ "str_nat (nat limit)"] exI [of _ "[]"]) simp
qed



subsection \<open>File names\<close>







subsection \<open>JSON texts and cache keys\<close>

lemma hex_digit_inj: "hex_digit m = hex_digit n \<Longrightarrow> m mod 16 = n mod 16"
proof -
  have d: "distinct ''0123456789abcdef''" by simp
  have l: "length ''0123456789abcdef'' = 16" by simp
  assume "hex_digit m = hex_digit n"
  then show ?thesis
    unfolding hex_digit_def using nth_eq_iff_index_eq [OF d, of "m mod 16" "n mod 16"] l
    by (metis mod_less_divisor zero_less_numeral)
qed

lemma hex_pair_inj:
  assumes "hex_digit (code a div 16) = hex_digit (code b div 16)"
    and "hex_digit (code a) = hex_digit (code b)"
  shows "a = b"
proof -
  have 1: "code a div 16 mod 16 = code b div 16 mod 16"
    using assms(1) by (rule hex_digit_inj)
  have 2: "code a mod 16 = code b mod 16"
    using assms(2) by (rule hex_digit_inj)
  have "code a div 16 < 16" "code b div 16 < 16"
    using code_less [of a] code_less [of b] by auto
  then have "code a div 16 = code b div 16"
    using 1 by simp
  then have "code a = code b"
    using 2 by (metis div_mult_mod_eq)
  then show ?thesis by (rule code_inj)
qed

lemma escape_char_cases:
  "(kind c = Plain \<and> escape_char c = [c] \<and> c \<noteq> backslash)
   \<or> (kind c = Short \<and> (\<exists>x. escape_char c = [backslash, x] \<and> x \<noteq> CHR ''u''))
   \<or> (kind c = Unicode \<and> escape_char c =
        [backslash, CHR ''u'', CHR ''0'', CHR ''0'', hex_digit (code c div 16), hex_digit (code c)])"
  by (auto simp: escape_char_def kind_def quote_def backslash_def)

lemma escape_char_short_inj:
  "kind a = Short \<Longrightarrow> kind b = Short \<Longrightarrow> escape_char a ! 1 = escape_char b ! 1 \<Longrightarrow> a = b"
  by (auto simp: escape_char_def kind_def quote_def backslash_def split: if_splits intro!: code_inj)

lemma escape_char_prefix_free:
  assumes "escape_char a @ X = escape_char b @ Y"
  shows "a = b"
proof -
  consider (pp) "kind a = Plain" "kind b = Plain"
    | (ps) "kind a = Plain" "kind b \<noteq> Plain"
    | (sp) "kind a \<noteq> Plain" "kind b = Plain"
    | (ss) "kind a = Short" "kind b = Short"
    | (su) "kind a = Short" "kind b = Unicode"
    | (us) "kind a = Unicode" "kind b = Short"
    | (uu) "kind a = Unicode" "kind b = Unicode"
    by (cases "kind a"; cases "kind b") auto
  then show ?thesis
  proof cases
    case pp
    then show ?thesis
      using assms escape_char_cases [of a] escape_char_cases [of b] by auto
  next
    case ps
    then show ?thesis
      using assms escape_char_cases [of a] escape_char_cases [of b] by (cases "kind b") auto
  next
    case sp
    then show ?thesis
      using assms escape_char_cases [of a] escape_char_cases [of b] by (cases "kind a") auto
  next
    case ss
    then have "escape_char a ! 1 = escape_char b ! 1"
      using assms escape_char_cases [of a] escape_char_cases [of b] by auto
    then show ?thesis
      using ss escape_char_short_inj by blast
  next
    case su
    then show ?thesis
      using assms escape_char_cases [of a] escape_char_cases [of b] by auto
  next
    case us
    then show ?thesis
      using assms escape_char_cases [of a] escape_char_cases [of b] by auto
  next
    case uu
    then have "hex_digit (code a div 16) = hex_digit (code b div 16)"
        "hex_digit (code a) = hex_digit (code b)"
      using assms escape_char_cases [of a] escape_char_cases [of b] by auto
    then show ?thesis by (rule hex_pair_inj)
  qed
qed

lemma escape_char_nonempty: "escape_char c \<noteq> []"
  using escape_char_cases [of c] by auto

lemma escape_inj:
  "concat (map escape_char s) = concat (map escape_char t) \<Longrightarrow> s = t"
proof (induction s arbitrary: t)
  case Nil
  then show ?case
    using escape_char_nonempty by (cases t) auto
next
  case (Cons a s)
  show ?case
  proof (cases t)
    case Nil
    then show ?thesis using Cons.prems escape_char_nonempty by auto
  next
    case (Cons b t')
    then have e: "escape_char a @ concat (map escape_char s)
        = escape_char b @ concat (map escape_char t')"
      using Cons.prems by simp
    then have ab: "a = b" by (rule escape_char_prefix_free)
    then have "concat (map escape_char s) = concat (map escape_char t')"
      using e by simp
    then show ?thesis
      using Cons.IH ab Cons by simp
  qed
qed

lemma dumps_str_inj: "dumps_str s = dumps_str t \<Longrightarrow> s = t"
  by (simp add: dumps_str_def escape_inj)









subsection \<open>Tokens\<close>

lemma map_of_dict_set: "map_of (dict_set d k v) = (map_of d)(k \<mapsto> v)"
  by (induction d) (auto simp: fun_eq_iff)

lemma set_dict_set: "set (dict_set d k v) \<subseteq> set d \<union> {(k, v)}"
  by (induction d) auto

lemma set_dict_update: "set (dict_update d kvs) \<subseteq> set d \<union> set kvs"
proof (induction kvs arbitrary: d)
  case Nil
  then show ?case by simp
next
  case (Cons kv kvs)
  show ?case
    using Cons.IH [of "dict_set d (fst kv) (snd kv)"] set_dict_set [of d "fst kv" "snd kv"]
    by auto
qed

lemma dropWhile_keeps_last:
  assumes "t \<noteq> []" "\<not> P (last t)"
  shows "dropWhile P t \<noteq> [] \<and> last (dropWhile P t) = last t"
  using assms by (induction t) auto

lemma strip_keeps_last:
  assumes "\<not> is_space c"
  shows "strip (s @ [c]) \<noteq> [] \<and> last (strip (s @ [c])) = c"
proof -
  have "rev (dropWhile is_space (rev (s @ [c]))) = s @ [c]"
    using assms by simp
  then show ?thesis
    unfolding strip_def using dropWhile_keeps_last [of "s @ [c]" is_space] assms by simp
qed

lemma int_of_str_not_digit_end:
  assumes "\<not> is_space c" "\<not> is_digit c"
  shows "int_of_str (s @ [c]) = Inl (ValueError ''invalid literal for int() with base 10'')"
proof -
  let ?t = "strip (s @ [c])"
  let ?b = "if ?t \<noteq> [] \<and> (hd ?t = CHR ''-'' \<or> hd ?t = CHR ''+'') then tl ?t else ?t"
  have t: "?t \<noteq> []" "last ?t = c"
    using strip_keeps_last [OF assms(1)] by auto
  have "?b = [] \<or> last ?b = c"
    using t by (cases ?t) (auto split: if_splits)
  then have "\<not> int_literal_body ?b"
    using assms(2) by (auto simp: int_literal_body_def)
  then show ?thesis
    by (simp add: int_of_str_def Let_def)
qed

lemma int_of_str_Z: "int_of_str (s @ ''Z'') = Inl (ValueError ''invalid literal for int() with base 10'')"
  by (rule int_of_str_not_digit_end) (simp_all add: is_space_def is_digit_def code_def)

lemma encode_claims_ok:
  "list_all encodable cs \<Longrightarrow> encode_claims cs = Inr (map (\<lambda>kv. (fst kv, encoded (snd kv))) cs)"
  by (induction cs) (auto simp: encodable_def encoded_def split: claim_value.splits)

lemma token_claims_encodable: "list_all encodable (token_claims now data delta dflt ty)"
proof -
  have "set (token_claims now data delta dflt ty) \<subseteq>
      set (map (\<lambda>kv. (fst kv, Json (snd kv))) data) \<union>
      {(''exp'', Datetime (case delta of
                      Some d \<Rightarrow> if d \<noteq> 0 then posix now + d else posix now + dflt
                    | None \<Rightarrow> posix now + dflt)),
       (''iat'', Json (PStr (isoformat now @ ''Z''))), (''type'', Json (PStr ty))}"
    unfolding token_claims_def Let_def
    by (rule order_trans [OF set_dict_update]) auto
  then show ?thesis
    unfolding list_all_iff by (auto simp: encodable_def)
qed

lemma token_claims_lookup:
  "map_of (token_claims now data delta dflt ty) ''iat'' = Some (Json (PStr (isoformat now @ ''Z'')))"
  "map_of (token_claims now data delta dflt ty) ''type'' = Some (Json (PStr ty))"
  by (simp_all add: token_claims_def Let_def map_of_dict_set)

lemma map_of_encoded:
  "map_of (map (\<lambda>kv. (fst kv, encoded (snd kv))) cs) k = map_option encoded (map_of cs k)"
  by (induction cs) auto

lemma hmac_of_Some: "hmac_of alg = Some a \<Longrightarrow> alg_name a = alg \<and> alg \<in> set SUPPORTED"
  by (auto simp: hmac_of_def SUPPORTED_def split: if_splits)

lemma created_token:
  "hmac_of alg = Some a \<Longrightarrow>
   jwt_encode (token_claims now data delta dflt ty) key alg =
     Inr (Token a key (map (\<lambda>kv. (fst kv, encoded (snd kv))) (token_claims now data delta dflt ty)))"
  by (simp add: jwt_encode_def encode_claims_ok token_claims_encodable hmac_of_Some)

lemma unsupported_algorithm:
  "hmac_of alg = None \<Longrightarrow> jwt_encode claims key alg = Inl JWSError \<or> (\<exists>e. encode_claims claims = Inl e)"
  by (auto simp: jwt_encode_def split: sum.splits)

lemma created_token_iat_rejected:
  "validate_claims t (map (\<lambda>kv. (fst kv, encoded (snd kv))) (token_claims now data delta dflt ty))
     = Some (JWTClaimsError ''Issued At claim (iat) must be an integer.'')"
proof -
  let ?cs = "map (\<lambda>kv. (fst kv, encoded (snd kv))) (token_claims now data delta dflt ty)"
  have "map_of ?cs ''iat'' = Some (encoded (Json (PStr (isoformat now @ ''Z''))))"
    unfolding map_of_encoded token_claims_lookup by simp
  then have "map_of ?cs ''iat'' = Some (PStr (isoformat now @ ''Z''))"
    by (simp add: encoded_def)
  then have "validate_iat ?cs = Some (JWTClaimsError ''Issued At claim (iat) must be an integer.'')"
    by (simp add: validate_iat_def int_claim_def int_of_str_Z)
  then show ?thesis
    by (simp add: validate_claims_def)
qed

lemma verify_token_outcomes:
  "verify_token c t tok ty =
     (case jwt_decode t tok (secret_key c) [algorithm c] of
        Inl (Uncaught e) \<Rightarrow> Inl e
      | Inl (ExpiredSignatureError m) \<Rightarrow> Inl (UnauthorizedError (''Token expir'' @ [CHR 0xE9]))
      | Inl (JWTClaimsError m) \<Rightarrow> Inl (UnauthorizedError ''Claims du token invalides'')
      | Inl (JWTError m) \<Rightarrow> Inl (UnauthorizedError (''Token invalide: '' @ m))
      | Inr payload \<Rightarrow>
          if map_of payload ''type'' = Some (PStr ty) then Inr payload
          else Inl (UnauthorizedError (''Type de token invalide: attendu '' @ ty)))"
  by (auto simp: verify_token_def split: sum.splits jose_error.splits option.splits)

lemma verify_token_accepts_numeric_iat:
  "verify_token default_settings 1735689601
     (Token HS256 (secret_key default_settings)
        [(''sub'', PStr ''x''), (''exp'', PInt 1735691400), (''iat'', PInt 1735689600),
         (''type'', PStr ''access'')]) ''access''
   = Inr [(''sub'', PStr ''x''), (''exp'', PInt 1735691400), (''iat'', PInt 1735689600),
          (''type'', PStr ''access'')]"
  by code_simp

lemma verify_token_rejects_refresh_and_expired:
  "verify_token default_settings 1735689601
     (Token HS256 (secret_key default_settings)
        [(''sub'', PStr ''x''), (''exp'', PInt 1735691400), (''iat'', PInt 1735689600),
         (''type'', PStr ''refresh'')]) ''access''
   = Inl (UnauthorizedError ''Type de token invalide: attendu access'')"
  "verify_token default_settings 1735699999
     (Token HS256 (secret_key default_settings)
        [(''sub'', PStr ''x''), (''exp'', PInt 1735691400), (''iat'', PInt 1735689600),
         (''type'', PStr ''access'')]) ''access''
   = Inl (UnauthorizedError (''Token expir'' @ [CHR 0xE9]))"
  by code_simp+

lemma created_access_token_example:
  "create_access_token default_settings example_clock [(''sub'', PStr ''x'')] None
     = Inr (Token HS256 (secret_key default_settings)
              [(''sub'', PStr ''x''), (''exp'', PInt 1735691400),
               (''iat'', PStr ''2025-01-01T00:00:00+00:00Z''), (''type'', PStr ''access'')])
   \<and> verify_token default_settings 1735689601
        (Token HS256 (secret_key default_settings)
              [(''sub'', PStr ''x''), (''exp'', PInt 1735691400),
               (''iat'', PStr ''2025-01-01T00:00:00+00:00Z''), (''type'', PStr ''access'')])
        ''access''
       = Inl (UnauthorizedError ''Claims du token invalides'')"
  by code_simp


section \<open>Results\<close>

subsection \<open>Query optimizer\<close>






text \<open>
  C9. \<open>optimize\<close> is idempotent: for every query, optimizing the optimized query changes
  nothing, because the appended clause is found by the LIMIT check. The default limit is
  not negative; \<open>Settings\<close> declares it with \<open>ge=1\<close>.
\<close>

theorem optimize_idempotent:
  "0 \<le> default_query_limit cfg \<Longrightarrow> optimize cfg (optimize cfg q) = optimize cfg q"
  by (simp add: optimize_def has_limit_add_limit)

text \<open>The theorem at a query ending in a semicolon, under the default settings.\<close>

theorem optimize_idempotent_witness:
  "0 \<le> default_query_limit default_settings
   \<and> optimize default_settings (optimize default_settings ''MATCH (n) RETURN n;'')
       = optimize default_settings ''MATCH (n) RETURN n;''
   \<and> optimize default_settings ''MATCH (n) RETURN n;'' = ''MATCH (n) RETURN n LIMIT 100''"
proof -
  have h: "0 \<le> default_query_limit default_settings"
    by (simp add: default_settings_def)
  have v: "optimize default_settings ''MATCH (n) RETURN n;'' = ''MATCH (n) RETURN n LIMIT 100''"
    by code_simp
  show ?thesis
    using h v optimize_idempotent [OF h, of "''MATCH (n) RETURN n;''"] by simp
qed

subsection \<open>Health endpoint\<close>

text \<open>
  C6. For every combination of the database and language-model health booleans the overall
  status of the health response is healthy when both hold, degraded when exactly one holds
  and unavailable when neither holds; the cache's health (and its enabled flag) never
  changes this overall status.
\<close>

theorem health_status_aggregation:
  "hr_status (health_check db llm cache en) =
     (if db \<and> llm then HEALTHY else if db \<noteq> llm then DEGRADED else UNAVAILABLE)
   \<and> hr_status (health_check db llm cache en) = hr_status (health_check db llm cache' en')"
  by (cases db; cases llm) (simp_all add: health_check_def global_status_def)

subsection \<open>Password policy\<close>

text \<open>
  C7. For every password, \<open>validate\<close> returns the messages of all the rules the password
  violates (minimum length, upper-case letter, lower-case letter, digit, special character),
  in the order of the rules, and reports the password valid exactly when there is none.
  Under the default policy \<open>abc\<close> is invalid with four messages (length, upper case, digit,
  special character) and \<open>Abcdef1!\<close> is valid with no message.
\<close>

theorem validate_reports_all_violations:
  "validate cfg p =
     (filter (violated cfg p) ALL_RULES = [],
      map (rule_message cfg) (filter (violated cfg p) ALL_RULES))
   \<and> validate default_settings ''abc''
       = (False, [msg_min_length 8, msg_uppercase, msg_digit, msg_special])
   \<and> validate default_settings ''Abcdef1!'' = (True, [])"
proof -
  have a: "validate default_settings ''abc''
       = (False, [msg_min_length 8, msg_uppercase, msg_digit, msg_special])"
    by code_simp
  have b: "validate default_settings ''Abcdef1!'' = (True, [])"
    by code_simp
  have c: "validate cfg p =
     (filter (violated cfg p) ALL_RULES = [],
      map (rule_message cfg) (filter (violated cfg p) ALL_RULES))"
    by (simp add: validate_def ALL_RULES_def list_ex_iff Let_def)
  show ?thesis using a b c by blast
qed

text \<open>The theorem at the password \<open>abc\<close>, which violates four of the five rules.\<close>

theorem validate_reports_all_violations_witness:
  "filter (violated default_settings ''abc'') ALL_RULES = [MinLength, Uppercase, Digit, Special]
   \<and> validate default_settings ''abc''
       = (False, map (rule_message default_settings) [MinLength, Uppercase, Digit, Special])
   \<and> length (snd (validate default_settings ''abc'')) = 4"
proof -
  have f: "filter (violated default_settings ''abc'') ALL_RULES
      = [MinLength, Uppercase, Digit, Special]"
    by code_simp
  show ?thesis
    using f validate_reports_all_violations [of default_settings "''abc''"] by simp
qed

subsection \<open>File name sanitizer\<close>




subsection \<open>GraphRAG engine\<close>

text \<open>
  C3. For every question and context, when \<open>use_cache\<close> is true, the cache is enabled and the
  lookup keyed by the question and \<open>{"context": context}\<close> returns a stored entry (a
  dictionary with the fields cypher, results, execution_time and answer),
  \<open>process_natural_query\<close> returns exactly the four cached values; the only step it performs
  is the cache lookup (no schema fetch, generation, optimization, read-only check,
  validation or execution), and the cache is unchanged.
\<close>

theorem cache_hit_returns_cached_tuple:
  assumes "use_cache" and "enabled cache"
    and "cache_get (library sv) cache question (context_params context) = PDict entry"
    and "map_of entry ''cypher'' = Some c" and "map_of entry ''results'' = Some r"
    and "map_of entry ''execution_time'' = Some t" and "map_of entry ''answer'' = Some a"
  shows "process_natural_query sv cache question context use_cache
           = ([CacheLookup], cache, Inr (c, r, t, a))"
proof -
  have "entry \<noteq> []" using assms(4) by auto
  then have "truthy (PDict entry)" by simp
  moreover have "cached_answer (PDict entry) = Inr (c, r, t, a)"
    using assms(4-7) by (simp add: cached_answer_def)
  ultimately show ?thesis
    using assms(1-3) by (simp add: process_natural_query_def Let_def)
qed

text \<open>
  The theorem at a cache holding one entry, with services that would fail if they were
  called.
\<close>

theorem cache_hit_returns_cached_tuple_witness:
  "enabled stub_cache
   \<and> cache_get (library (stub_services False)) stub_cache ''how many nodes?'' (context_params None)
       = PDict [(''cypher'', PStr ''MATCH (n) RETURN n LIMIT 100''),
                (''results'', PList [PDict [(''n'', PInt 1)]]),
                (''execution_time'', PFloat 12.5),
                (''answer'', PStr ''one node'')]
   \<and> process_natural_query (stub_services False) stub_cache ''how many nodes?'' None True
       = ([CacheLookup], stub_cache,
          Inr (PStr ''MATCH (n) RETURN n LIMIT 100'', PList [PDict [(''n'', PInt 1)]],
               PFloat 12.5, PStr ''one node''))"
proof -
  let ?entry = "[(''cypher'', PStr ''MATCH (n) RETURN n LIMIT 100''),
                (''results'', PList [PDict [(''n'', PInt 1)]]),
                (''execution_time'', PFloat 12.5),
                (''answer'', PStr ''one node'')]"
  have e: "enabled stub_cache"
    by (simp add: stub_cache_def)
  have g: "cache_get (library (stub_services False)) stub_cache ''how many nodes?'' (context_params None)
      = PDict ?entry"
    by (simp add: cache_get_def stub_cache_def stub_services_def stub_lib_def)
  show ?thesis
    using e g cache_hit_returns_cached_tuple [of True stub_cache "stub_services False"
        "''how many nodes?''" None ?entry "PStr ''MATCH (n) RETURN n LIMIT 100''"
        "PList [PDict [(''n'', PInt 1)]]" "PFloat 12.5" "PStr ''one node''"]
    by simp
qed

text \<open>
  C10. For every query whose syntax validation fails, \<open>validate_query\<close> returns
  \<open>is_valid = False\<close>, \<open>is_read_only = False\<close>, the validation error and no warning, whatever the
  query contains and whether or not the read-only check was requested; a warning (the
  missing-LIMIT one) is only produced for a query that passed the syntax validation.
\<close>

theorem validate_query_invalid_syntax:
  "(\<not> fst (validate_cypher sv q) \<longrightarrow>
      validate_query sv q check_read_only = (False, False, snd (validate_cypher sv q), []))
   \<and> (snd (snd (snd (validate_query sv q check_read_only))) \<noteq> [] \<longrightarrow>
        fst (validate_cypher sv q) \<and> fst (validate_query sv q check_read_only))"
  by (cases "validate_cypher sv q")
    (auto simp: validate_query_def Let_def split: prod.splits if_splits)

text \<open>
  The theorem at a read-only query without LIMIT and at a query with DELETE, both
  failing the syntax check, and at a query without LIMIT that passes it.
\<close>

theorem validate_query_invalid_syntax_witness:
  "\<not> fst (validate_cypher (stub_services False) ''MATCH (n) RETURN n'')
   \<and> validate_query (stub_services False) ''MATCH (n) RETURN n'' True
       = (False, False, Some ''Invalid input'', [])
   \<and> validate_query (stub_services False) ''MATCH (n) DELETE n'' False
       = (False, False, Some ''Invalid input'', [])
   \<and> validate_query (stub_services True) ''MATCH (n) RETURN n'' True
       = (True, True, None, [limit_warning default_settings])
   \<and> fst (validate_cypher (stub_services True) ''MATCH (n) RETURN n'')"
proof -
  have f: "\<not> fst (validate_cypher (stub_services False) q)" for q
    by (simp add: stub_services_def)
  have s: "snd (validate_cypher (stub_services False) q) = Some ''Invalid input''" for q
    by (simp add: stub_services_def)
  have v: "validate_query (stub_services True) ''MATCH (n) RETURN n'' True
       = (True, True, None, [limit_warning default_settings])"
    by code_simp
  have w: "snd (snd (snd (True, True, None :: string option, [limit_warning default_settings]))) \<noteq> []"
    by simp
  show ?thesis
    using f s v w
      validate_query_invalid_syntax [of "stub_services False" "''MATCH (n) RETURN n''" True]
      validate_query_invalid_syntax [of "stub_services False" "''MATCH (n) DELETE n''" False]
      validate_query_invalid_syntax [of "stub_services True" "''MATCH (n) RETURN n''" True]
    by simp
qed

subsection \<open>Cache keys\<close>




subsection \<open>JSON Web Tokens\<close>

text \<open>
  C5. The claim holds for the failures it lists (a token of another type, an expired
  token, invalid claims and other decode failures of jose all end in \<open>UnauthorizedError\<close>, see
  \<open>verify_token_outcomes\<close>), but not for its last part: no token produced by
  \<open>create_access_token\<close> verifies. The \<open>iat\<close> claim the function writes is the ISO text of the
  time followed by \<open>Z\<close>, not a number, and \<open>jwt.decode\<close> rejects a token whose \<open>iat\<close> does not
  convert to an integer. For every settings with an HMAC algorithm, every clock, claims and
  expiry, \<open>create_access_token\<close> returns a token, and \<open>verify_token\<close> rejects it with
  \<open>UnauthorizedError\<close> at any time of verification.
\<close>

theorem created_access_token_is_rejected:
  assumes "hmac_of (algorithm c) = Some a"
  shows "\<exists>tok. create_access_token c now data expires_delta = Inr tok
     \<and> verify_token c t tok ''access'' = Inl (UnauthorizedError ''Claims du token invalides'')"
  using hmac_of_Some [OF assms]
  by (simp add: create_access_token_def created_token [OF assms] verify_token_def jwt_decode_def
      created_token_iat_rejected)

text \<open>
  Under the default settings, for the claims \<open>{"sub": "x"}\<close>.
\<close>

theorem created_access_token_is_rejected_witness:
  "hmac_of (algorithm default_settings) = Some HS256
   \<and> (\<exists>tok. create_access_token default_settings example_clock [(''sub'', PStr ''x'')] None = Inr tok
        \<and> verify_token default_settings 1735689601 tok ''access''
            = Inl (UnauthorizedError ''Claims du token invalides''))"
proof -
  have a: "hmac_of (algorithm default_settings) = Some HS256"
    by code_simp
  show ?thesis
    using created_access_token_is_rejected [OF a] a by blast
qed

end
